theory Spec2Isabelle
  imports Main "HOL-Library.Word"
begin

section \<open>Data model of \<^verbatim>\<open>cdvae/pl_data/datamodule.py\<close>\<close>

text \<open>
  The module is glue over four external libraries. Python objects that are shared and
  mutated (datasets, scalers) live in a store and are named by references; the
  \<^verbatim>\<open>CrystDataModule\<close> object itself is passed explicitly as \<open>self\<close>. An exception is
  a value \<open>Inl e\<close>, returned together with the state reached when it was raised, since
  Python keeps the assignments made before a raise.
\<close>

type_synonym ref = nat

datatype error =
  FrameworkError string  \<comment> \<open>an exception raised inside hydra, torch or the data utilities\<close>
| TypeError              \<comment> \<open>the interpreter's: iterating over \<^verbatim>\<open>None\<close>\<close>
| AttributeError         \<comment> \<open>the interpreter's: reading an attribute that is not there\<close>

text \<open>The random state of one data-loading worker process.\<close>

record worker_process =
  torch_initial_seed :: "64 word"             \<comment> \<open>what \<^verbatim>\<open>torch.initial_seed()\<close> returns\<close>
  np_random_seed :: "32 word list option"     \<comment> \<open>last argument of \<^verbatim>\<open>np.random.seed\<close>\<close>
  random_seed :: "64 word option"             \<comment> \<open>last argument of \<^verbatim>\<open>random.seed\<close>\<close>

text \<open>An omegaconf \<^verbatim>\<open>DictConfig\<close> with the three split keys.\<close>

record ('a, 'b) DictConfig =
  train :: 'a
  val :: 'b
  test :: 'b

text \<open>
  A dataset object as far as this module touches it: the two attributes \<^verbatim>\<open>get_scaler\<close>
  reads and the two attributes \<^verbatim>\<open>setup\<close> assigns (\<open>None\<close> is Python's \<^verbatim>\<open>None\<close>).
\<close>

record 'd Dataset =
  cached_data :: 'd
  props :: "string list"  \<comment> \<open>the attribute \<^verbatim>\<open>prop\<close>\<close>
  ds_lattice_scaler :: "ref option"
  ds_prop_scalers :: "ref option"

text \<open>A scaler object, or a Python list of such objects.\<close>

datatype 's pyval = Scaler 's | PyList "'s pyval list"

text \<open>
  A \<^verbatim>\<open>DataLoader\<close> is the record of the keyword arguments it was constructed with.
\<close>

record DataLoader =
  dl_dataset :: "ref option"
  dl_shuffle :: bool
  dl_batch_size :: int
  dl_num_workers :: int
  dl_worker_init_fn :: "int \<Rightarrow> worker_process \<Rightarrow> worker_process"

text \<open>
  The fields of \<^verbatim>\<open>CrystDataModule\<close>. \<open>lattice_scaler\<close> and \<open>prop_scalers\<close> are \<open>None\<close>
  while the attribute has not been assigned; the three dataset handles are \<open>None\<close> when
  they hold Python's \<^verbatim>\<open>None\<close>.
\<close>

record 'c CrystDataModule =
  datasets :: "('c, 'c list) DictConfig"
  num_workers :: "(int, int) DictConfig"
  batch_size :: "(int, int) DictConfig"
  train_batch_size :: int
  val_batch_size :: int
  test_batch_size :: int
  scaler_path :: "string option"
  train_dataset :: "ref option"
  val_datasets :: "ref list option"
  test_datasets :: "ref list option"
  lattice_scaler :: "ref option"
  prop_scalers :: "ref option"

text \<open>
  The log of the calls the claims speak about: every invocation of \<^verbatim>\<open>get_scaler\<close>, every
  \<^verbatim>\<open>hydra.utils.instantiate\<close> and every \<^verbatim>\<open>torch.load\<close> (directory and file name).
\<close>

datatype 'c event =
  Call_get_scaler "string option"
| Instantiate 'c
| TorchLoad string string

record ('c, 'd, 's) world =
  ds_heap :: "ref \<rightharpoonup> 'd Dataset"
  obj_heap :: "ref \<rightharpoonup> 's pyval"
  next_ref :: ref
  trace :: "'c event list"

text \<open>
  The external functions, as parameters: \<^verbatim>\<open>hydra.utils.instantiate\<close>,
  \<^verbatim>\<open>get_scaler_from_data_list\<close> (data list, key), \<^verbatim>\<open>torch.load\<close> of
  \<^verbatim>\<open>Path(dir) / name\<close>, \<^verbatim>\<open>np.random.SeedSequence(entropy).generate_state(n)\<close>, and the
  argument validation of the \<^verbatim>\<open>DataLoader\<close> constructor. Each may raise.
\<close>

record ('c, 'd, 's) env =
  hydra_instantiate :: "'c \<Rightarrow> error + 'd Dataset"
  get_scaler_from_data_list :: "'d \<Rightarrow> string \<Rightarrow> error + 's"
  torch_load :: "string \<Rightarrow> string \<Rightarrow> error + 's pyval"
  SeedSequence_generate_state :: "64 word list \<Rightarrow> nat \<Rightarrow> 32 word list"
  DataLoader_init :: "DataLoader \<Rightarrow> error option"

section \<open>The worker-seed initializer\<close>

definition worker_init_fn ::
  "(64 word list \<Rightarrow> nat \<Rightarrow> 32 word list) \<Rightarrow> int \<Rightarrow> worker_process \<Rightarrow> worker_process" where
  "worker_init_fn generate_state wid p =
     (let uint64_seed = torch_initial_seed p;
          ss = generate_state [uint64_seed]
      in p\<lparr>np_random_seed := Some (ss 4), random_seed := Some uint64_seed\<rparr>)"

section \<open>Store primitives\<close>

text \<open>\<^verbatim>\<open>hydra.utils.instantiate(cfg)\<close>: logs the call, and on success puts the new
  dataset object at a fresh reference.\<close>

definition instantiate ::
  "('c, 'd, 's) env \<Rightarrow> 'c \<Rightarrow> ('c, 'd, 's) world \<Rightarrow> (error + ref) \<times> ('c, 'd, 's) world" where
  "instantiate env cfg w =
     (let w1 = w\<lparr>trace := trace w @ [Instantiate cfg]\<rparr> in
      case hydra_instantiate env cfg of
        Inl e \<Rightarrow> (Inl e, w1)
      | Inr d \<Rightarrow>
          (Inr (next_ref w1),
           w1\<lparr>ds_heap := (ds_heap w1)(next_ref w1 \<mapsto> d), next_ref := Suc (next_ref w1)\<rparr>))"

text \<open>\<^verbatim>\<open>[hydra.utils.instantiate(cfg) for cfg in cfgs]\<close>: left to right, stopping at the
  first exception.\<close>

fun instantiate_all ::
  "('c, 'd, 's) env \<Rightarrow> 'c list \<Rightarrow> ('c, 'd, 's) world \<Rightarrow> (error + ref list) \<times> ('c, 'd, 's) world" where
  "instantiate_all env [] w = (Inr [], w)"
| "instantiate_all env (cfg # cfgs) w =
     (case instantiate env cfg w of
        (Inl e, w1) \<Rightarrow> (Inl e, w1)
      | (Inr r, w1) \<Rightarrow>
          (case instantiate_all env cfgs w1 of
             (Inl e, w2) \<Rightarrow> (Inl e, w2)
           | (Inr rs, w2) \<Rightarrow> (Inr (r # rs), w2)))"

definition alloc_obj :: "'s pyval \<Rightarrow> ('c, 'd, 's) world \<Rightarrow> ref \<times> ('c, 'd, 's) world" where
  "alloc_obj v w =
     (next_ref w, w\<lparr>obj_heap := (obj_heap w)(next_ref w \<mapsto> v), next_ref := Suc (next_ref w)\<rparr>)"

text \<open>\<^verbatim>\<open>torch.load(Path(dir) / name)\<close>: logs the call, and on success puts the
  deserialized object at a fresh reference.\<close>

definition load ::
  "('c, 'd, 's) env \<Rightarrow> string \<Rightarrow> string \<Rightarrow> ('c, 'd, 's) world \<Rightarrow> (error + ref) \<times> ('c, 'd, 's) world" where
  "load env dir name w =
     (let w1 = w\<lparr>trace := trace w @ [TorchLoad dir name]\<rparr> in
      case torch_load env dir name of
        Inl e \<Rightarrow> (Inl e, w1)
      | Inr v \<Rightarrow> (case alloc_obj v w1 of (r, w2) \<Rightarrow> (Inr r, w2)))"

text \<open>\<^verbatim>\<open>[get_scaler_from_data_list(data, key=p) for p in props]\<close>.\<close>

fun scalers_for_props :: "(string \<Rightarrow> error + 's) \<Rightarrow> string list \<Rightarrow> error + 's list" where
  "scalers_for_props f [] = Inr []"
| "scalers_for_props f (p # ps) =
     (case f p of
        Inl e \<Rightarrow> Inl e
      | Inr s \<Rightarrow>
          (case scalers_for_props f ps of
             Inl e \<Rightarrow> Inl e
           | Inr ss \<Rightarrow> Inr (s # ss)))"

text \<open>
  The two assignments \<^verbatim>\<open>d.lattice_scaler = self.lattice_scaler\<close> and
  \<^verbatim>\<open>d.prop_scalers = self.prop_scalers\<close> on the dataset object at \<open>r\<close>: the reference held
  by the module is stored, nothing is copied. Reading an attribute of \<open>self\<close> that was
  never assigned raises.
\<close>

definition attach_scalers ::
  "'c CrystDataModule \<Rightarrow> ref \<Rightarrow> ('c, 'd, 's) world \<Rightarrow> (error + unit) \<times> ('c, 'd, 's) world" where
  "attach_scalers m r w =
     (case lattice_scaler m of
        None \<Rightarrow> (Inl AttributeError, w)
      | Some ls \<Rightarrow>
          (let w1 = w\<lparr>ds_heap := (ds_heap w)(r :=
                      map_option (\<lambda>d. d\<lparr>ds_lattice_scaler := Some ls\<rparr>) (ds_heap w r))\<rparr> in
           case prop_scalers m of
             None \<Rightarrow> (Inl AttributeError, w1)
           | Some ps \<Rightarrow>
               (Inr (), w1\<lparr>ds_heap := (ds_heap w1)(r :=
                      map_option (\<lambda>d. d\<lparr>ds_prop_scalers := Some ps\<rparr>) (ds_heap w1 r))\<rparr>)))"

fun attach_scalers_all ::
  "'c CrystDataModule \<Rightarrow> ref list \<Rightarrow> ('c, 'd, 's) world \<Rightarrow> (error + unit) \<times> ('c, 'd, 's) world" where
  "attach_scalers_all m [] w = (Inr (), w)"
| "attach_scalers_all m (r # rs) w =
     (case attach_scalers m r w of
        (Inl e, w1) \<Rightarrow> (Inl e, w1)
      | (Inr u, w1) \<Rightarrow> attach_scalers_all m rs w1)"

section \<open>\<^verbatim>\<open>CrystDataModule\<close>\<close>

definition get_scaler ::
  "('c, 'd, 's) env \<Rightarrow> string option \<Rightarrow> 'c CrystDataModule \<times> ('c, 'd, 's) world \<Rightarrow>
     (error + unit) \<times> 'c CrystDataModule \<times> ('c, 'd, 's) world" where
  "get_scaler env sp mw =
     (case mw of (m, w0) \<Rightarrow>
      let w = w0\<lparr>trace := trace w0 @ [Call_get_scaler sp]\<rparr> in
      case sp of
        None \<Rightarrow>
          (case instantiate env (train (datasets m)) w of
             (Inl e, w1) \<Rightarrow> (Inl e, m, w1)
           | (Inr td, w1) \<Rightarrow>
               (case ds_heap w1 td of
                  None \<Rightarrow> (Inl AttributeError, m, w1)
                | Some d \<Rightarrow>
                    (case get_scaler_from_data_list env (cached_data d) ''scaled_lattice'' of
                       Inl e \<Rightarrow> (Inl e, m, w1)
                     | Inr s \<Rightarrow>
                         (case alloc_obj (Scaler s) w1 of (r1, w2) \<Rightarrow>
                          let m1 = m\<lparr>lattice_scaler := Some r1\<rparr> in
                          case scalers_for_props
                                 (get_scaler_from_data_list env (cached_data d)) (props d) of
                            Inl e \<Rightarrow> (Inl e, m1, w2)
                          | Inr ss \<Rightarrow>
                              (case alloc_obj (PyList (map Scaler ss)) w2 of (r2, w3) \<Rightarrow>
                                 (Inr (), m1\<lparr>prop_scalers := Some r2\<rparr>, w3))))))
      | Some dir \<Rightarrow>
          (case load env dir ''lattice_scaler.pt'' w of
             (Inl e, w1) \<Rightarrow> (Inl e, m, w1)
           | (Inr r1, w1) \<Rightarrow>
               (let m1 = m\<lparr>lattice_scaler := Some r1\<rparr> in
                case load env dir ''prop_scalers.pt'' w1 of
                  (Inl e, w2) \<Rightarrow> (Inl e, m1, w2)
                | (Inr r2, w2) \<Rightarrow> (Inr (), m1\<lparr>prop_scalers := Some r2\<rparr>, w2))))"

text \<open>\<^verbatim>\<open>__init__\<close>: the fields are assigned in source order, then \<^verbatim>\<open>get_scaler\<close> runs.\<close>

definition CrystDataModule_init ::
  "('c, 'd, 's) env \<Rightarrow> ('c, 'c list) DictConfig \<Rightarrow> (int, int) DictConfig \<Rightarrow>
     (int, int) DictConfig \<Rightarrow> string option \<Rightarrow> ('c, 'd, 's) world \<Rightarrow>
     (error + unit) \<times> 'c CrystDataModule \<times> ('c, 'd, 's) world" where
  "CrystDataModule_init env dsets nw bs sp w =
     get_scaler env sp
       (\<lparr>datasets = dsets, num_workers = nw, batch_size = bs,
         train_batch_size = train bs, val_batch_size = val bs, test_batch_size = test bs,
         scaler_path = sp,
         train_dataset = None, val_datasets = None, test_datasets = None,
         lattice_scaler = None, prop_scalers = None\<rparr>, w)"

text \<open>The body of \<^verbatim>\<open>if stage is None or stage == "fit"\<close>.\<close>

definition setup_fit ::
  "('c, 'd, 's) env \<Rightarrow> 'c CrystDataModule \<times> ('c, 'd, 's) world \<Rightarrow>
     (error + unit) \<times> 'c CrystDataModule \<times> ('c, 'd, 's) world" where
  "setup_fit env mw =
     (case mw of (m, w) \<Rightarrow>
      case (if train_dataset m = None
            then (case instantiate env (train (datasets m)) w of
                    (Inl e, w1) \<Rightarrow> (Inl e, m, w1)
                  | (Inr r, w1) \<Rightarrow> (Inr (), m\<lparr>train_dataset := Some r\<rparr>, w1))
            else (Inr (), m, w)) of
        (Inl e, m1, w1) \<Rightarrow> (Inl e, m1, w1)
      | (Inr u, m1, w1) \<Rightarrow>
          (case instantiate_all env (val (datasets m1)) w1 of
             (Inl e, w2) \<Rightarrow> (Inl e, m1, w2)
           | (Inr vs, w2) \<Rightarrow>
               (let m2 = m1\<lparr>val_datasets := Some vs\<rparr> in
                case train_dataset m2 of
                  None \<Rightarrow> (Inl AttributeError, m2, w2)
                | Some r \<Rightarrow>
                    (case attach_scalers m2 r w2 of
                       (Inl e, w3) \<Rightarrow> (Inl e, m2, w3)
                     | (Inr u, w3) \<Rightarrow>
                         (case attach_scalers_all m2 vs w3 of
                            (Inl e, w4) \<Rightarrow> (Inl e, m2, w4)
                          | (Inr u, w4) \<Rightarrow> (Inr (), m2, w4))))))"

text \<open>The body of \<^verbatim>\<open>if stage is None or stage == "test"\<close>.\<close>

definition setup_test ::
  "('c, 'd, 's) env \<Rightarrow> 'c CrystDataModule \<times> ('c, 'd, 's) world \<Rightarrow>
     (error + unit) \<times> 'c CrystDataModule \<times> ('c, 'd, 's) world" where
  "setup_test env mw =
     (case mw of (m, w) \<Rightarrow>
      case instantiate_all env (test (datasets m)) w of
        (Inl e, w1) \<Rightarrow> (Inl e, m, w1)
      | (Inr ts, w1) \<Rightarrow>
          (let m1 = m\<lparr>test_datasets := Some ts\<rparr> in
           case attach_scalers_all m1 ts w1 of
             (Inl e, w2) \<Rightarrow> (Inl e, m1, w2)
           | (Inr u, w2) \<Rightarrow> (Inr (), m1, w2)))"

text \<open>\<^verbatim>\<open>setup(stage)\<close>.\<close>

definition setup_stage ::
  "('c, 'd, 's) env \<Rightarrow> string option \<Rightarrow> 'c CrystDataModule \<times> ('c, 'd, 's) world \<Rightarrow>
     (error + unit) \<times> 'c CrystDataModule \<times> ('c, 'd, 's) world" where
  "setup_stage env stage mw =
     (case (if stage = None \<or> stage = Some ''fit'' then setup_fit env mw else (Inr (), mw)) of
        (Inl e, mw1) \<Rightarrow> (Inl e, mw1)
      | (Inr u, mw1) \<Rightarrow>
          (if stage = None \<or> stage = Some ''test'' then setup_test env mw1 else (Inr (), mw1)))"

text \<open>\<^verbatim>\<open>DataLoader(...)\<close>: the constructor may reject its arguments.\<close>

definition new_DataLoader :: "('c, 'd, 's) env \<Rightarrow> DataLoader \<Rightarrow> error + DataLoader" where
  "new_DataLoader env l = (case DataLoader_init env l of Some e \<Rightarrow> Inl e | None \<Rightarrow> Inr l)"

text \<open>\<^verbatim>\<open>[DataLoader(dataset, ...) for dataset in ds]\<close>.\<close>

fun new_DataLoaders ::
  "('c, 'd, 's) env \<Rightarrow> (ref \<Rightarrow> DataLoader) \<Rightarrow> ref list \<Rightarrow> error + DataLoader list" where
  "new_DataLoaders env args [] = Inr []"
| "new_DataLoaders env args (d # ds) =
     (case new_DataLoader env (args d) of
        Inl e \<Rightarrow> Inl e
      | Inr l \<Rightarrow>
          (case new_DataLoaders env args ds of
             Inl e \<Rightarrow> Inl e
           | Inr ls \<Rightarrow> Inr (l # ls)))"

definition train_dataloader ::
  "('c, 'd, 's) env \<Rightarrow> 'c CrystDataModule \<Rightarrow> error + DataLoader" where
  "train_dataloader env m =
     new_DataLoader env
       \<lparr>dl_dataset = train_dataset m, dl_shuffle = True,
        dl_batch_size = train_batch_size m, dl_num_workers = train (num_workers m),
        dl_worker_init_fn = worker_init_fn (SeedSequence_generate_state env)\<rparr>"

definition val_dataloader ::
  "('c, 'd, 's) env \<Rightarrow> 'c CrystDataModule \<Rightarrow> error + DataLoader list" where
  "val_dataloader env m =
     (case val_datasets m of
        None \<Rightarrow> Inl TypeError
      | Some ds \<Rightarrow>
          new_DataLoaders env
            (\<lambda>dataset. \<lparr>dl_dataset = Some dataset, dl_shuffle = False,
                        dl_batch_size = val_batch_size m, dl_num_workers = val (num_workers m),
                        dl_worker_init_fn = worker_init_fn (SeedSequence_generate_state env)\<rparr>)
            ds)"

definition test_dataloader ::
  "('c, 'd, 's) env \<Rightarrow> 'c CrystDataModule \<Rightarrow> error + DataLoader list" where
  "test_dataloader env m =
     (case test_datasets m of
        None \<Rightarrow> Inl TypeError
      | Some ds \<Rightarrow>
          new_DataLoaders env
            (\<lambda>dataset. \<lparr>dl_dataset = Some dataset, dl_shuffle = False,
                        dl_batch_size = test_batch_size m, dl_num_workers = test (num_workers m),
                        dl_worker_init_fn = worker_init_fn (SeedSequence_generate_state env)\<rparr>)
            ds)"

section \<open>Lifetime of a module\<close>

text \<open>
  What a caller can do with a constructed module. The three iterator constructors assign
  no attribute and touch no stored object, so as steps they leave the state as it is;
  a \<^verbatim>\<open>setup\<close> that raises leaves the state it had reached.
\<close>

datatype operation = Setup "string option" | Train_dataloader | Val_dataloader | Test_dataloader

fun step ::
  "('c, 'd, 's) env \<Rightarrow> operation \<Rightarrow> 'c CrystDataModule \<times> ('c, 'd, 's) world \<Rightarrow>
     'c CrystDataModule \<times> ('c, 'd, 's) world" where
  "step env (Setup stage) mw = snd (setup_stage env stage mw)"
| "step env Train_dataloader mw = mw"
| "step env Val_dataloader mw = mw"
| "step env Test_dataloader mw = mw"

fun run ::
  "('c, 'd, 's) env \<Rightarrow> operation list \<Rightarrow> 'c CrystDataModule \<times> ('c, 'd, 's) world \<Rightarrow>
     'c CrystDataModule \<times> ('c, 'd, 's) world" where
  "run env [] mw = mw"
| "run env (op # ops) mw = run env ops (step env op mw)"

section \<open>The worker-seed initializer: determinism\<close>

lemma worker_init_fn_fields:
  "np_random_seed (worker_init_fn g i p) = Some (g [torch_initial_seed p] 4)"
  "random_seed (worker_init_fn g i p) = Some (torch_initial_seed p)"
  "torch_initial_seed (worker_init_fn g i p) = torch_initial_seed p"
  by (simp_all add: worker_init_fn_def Let_def)

text \<open>
  Claim C6. The seeds that \<^verbatim>\<open>worker_init_fn\<close> sets are a function of
  \<^verbatim>\<open>torch.initial_seed()\<close> alone: two worker processes with the same initial seed end
  with the same numpy seed words (the state of four words that the seed sequence over
  \<open>[seed]\<close> generates) and the same stdlib seed, whatever their ids and earlier
  random states were; two processes whose initial seeds differ end with different
  stdlib seeds.
\<close>

theorem worker_init_fn_seed_determined:
  "(torch_initial_seed p = torch_initial_seed q \<longrightarrow>
      np_random_seed (worker_init_fn g i p) = np_random_seed (worker_init_fn g j q) \<and>
      random_seed (worker_init_fn g i p) = random_seed (worker_init_fn g j q) \<and>
      np_random_seed (worker_init_fn g i p) = Some (g [torch_initial_seed p] 4)) \<and>
   (torch_initial_seed p \<noteq> torch_initial_seed q \<longrightarrow>
      random_seed (worker_init_fn g i p) \<noteq> random_seed (worker_init_fn g j q))"
  by (simp add: worker_init_fn_fields)

theorem worker_init_fn_seed_determined_witness:
  "(let g = (\<lambda>e n. map ucast e @ [of_nat n]);
        p = \<lparr>torch_initial_seed = 42, np_random_seed = None, random_seed = None\<rparr>;
        q = \<lparr>torch_initial_seed = 42, np_random_seed = Some [1], random_seed = Some 5\<rparr>;
        r = \<lparr>torch_initial_seed = 43, np_random_seed = None, random_seed = None\<rparr>
    in torch_initial_seed p = torch_initial_seed q \<and>
       np_random_seed (worker_init_fn g 0 p) = np_random_seed (worker_init_fn g 1 q) \<and>
       random_seed (worker_init_fn g 0 p) = random_seed (worker_init_fn g 1 q) \<and>
       np_random_seed (worker_init_fn g 0 p) = Some [42, 4] \<and>
       torch_initial_seed p \<noteq> torch_initial_seed r \<and>
       random_seed (worker_init_fn g 0 p) \<noteq> random_seed (worker_init_fn g 1 r))"
  using worker_init_fn_seed_determined
    [where p = "\<lparr>torch_initial_seed = 42, np_random_seed = None, random_seed = None\<rparr>"
       and q = "\<lparr>torch_initial_seed = 42, np_random_seed = Some [1], random_seed = Some 5\<rparr>"
       and g = "(\<lambda>e n. map ucast e @ [of_nat n])" and i = 0 and j = 1]
    worker_init_fn_seed_determined
    [where p = "\<lparr>torch_initial_seed = 42, np_random_seed = None, random_seed = None\<rparr>"
       and q = "\<lparr>torch_initial_seed = 43, np_random_seed = None, random_seed = None\<rparr>"
       and g = "(\<lambda>e n. map ucast e @ [of_nat n])" and i = 0 and j = 1]
  by (simp add: Let_def worker_init_fn_def)

text \<open>
  Claim C9. The \<^verbatim>\<open>id\<close> argument is never read: in one worker process any two ids
  give the same resulting state.
\<close>

theorem worker_init_fn_ignores_id:
  "worker_init_fn g i p = worker_init_fn g j p"
  by (simp add: worker_init_fn_def)

end
